theory Spec2Isabelle
  imports Main
begin

section \<open>JavaScript strings\<close>

text \<open>
  A string of the program is the list of its code points; \<open>lit\<close> turns a literal
  into one.
\<close>

type_synonym jsstring = "nat list"

definition lit :: "string \<Rightarrow> jsstring" where
  "lit s = map of_char s"

text \<open>
  \<open>toUpperCase\<close> and \<open>toLowerCase\<close> map every code point on its own, some to
  more than one code point. The two tables hold every code point whose upper case, or
  lower case, contains an ASCII letter: the 26 letters, and in the upper-case table sharp
  s, dotless i, n preceded by apostrophe, long s, j with caron, h with line below, t with
  diaeresis, w and y with ring above, a with right half ring and the seven Latin
  ligatures; in the lower-case table capital I with dot above and the Kelvin sign. A code
  point outside the tables is left as it is: JavaScript maps it to code points outside
  ASCII, so that a comparison of the result with a word of ASCII letters comes out the
  same.
\<close>

definition upperTable :: "(nat \<times> nat list) list" where
  "upperTable =
     zip (lit ''abcdefghijklmnopqrstuvwxyz'')
         (map (\<lambda>c. [c]) (lit ''ABCDEFGHIJKLMNOPQRSTUVWXYZ'')) @
     [(0xDF, lit ''SS''), (0x131, lit ''I''), (0x149, [0x2BC, 0x4E]), (0x17F, lit ''S''),
      (0x1F0, [0x4A, 0x30C]), (0x1E96, [0x48, 0x331]), (0x1E97, [0x54, 0x308]),
      (0x1E98, [0x57, 0x30A]), (0x1E99, [0x59, 0x30A]), (0x1E9A, [0x41, 0x2BE]),
      (0xFB00, lit ''FF''), (0xFB01, lit ''FI''), (0xFB02, lit ''FL''), (0xFB03, lit ''FFI''),
      (0xFB04, lit ''FFL''), (0xFB05, lit ''ST''), (0xFB06, lit ''ST'')]"

definition lowerTable :: "(nat \<times> nat list) list" where
  "lowerTable =
     zip (lit ''ABCDEFGHIJKLMNOPQRSTUVWXYZ'')
         (map (\<lambda>c. [c]) (lit ''abcdefghijklmnopqrstuvwxyz'')) @
     [(0x130, [0x69, 0x307]), (0x212A, lit ''k'')]"

definition upperPoint :: "nat \<Rightarrow> nat list" where
  "upperPoint c = (case map_of upperTable c of Some u \<Rightarrow> u | None \<Rightarrow> [c])"

definition lowerPoint :: "nat \<Rightarrow> nat list" where
  "lowerPoint c = (case map_of lowerTable c of Some l \<Rightarrow> l | None \<Rightarrow> [c])"

definition toUpperCase :: "jsstring \<Rightarrow> jsstring" where
  "toUpperCase s = concat (map upperPoint s)"

definition toLowerCase :: "jsstring \<Rightarrow> jsstring" where
  "toLowerCase s = concat (map lowerPoint s)"

text \<open>
  The code points that \<open>trim\<close> strips from both ends: the white space and the line
  terminators of the language (tab, line feed, vertical tab, form feed, carriage return,
  space, no-break space, the other space separators, line and paragraph separator, and
  the byte order mark).
\<close>

definition isWhiteSpace :: "nat \<Rightarrow> bool" where
  "isWhiteSpace c =
     (c \<in> set [0x09, 0x0A, 0x0B, 0x0C, 0x0D, 0x20, 0xA0, 0x1680, 0x2000, 0x2001, 0x2002,
               0x2003, 0x2004, 0x2005, 0x2006, 0x2007, 0x2008, 0x2009, 0x200A, 0x2028,
               0x2029, 0x202F, 0x205F, 0x3000, 0xFEFF])"

definition trim :: "jsstring \<Rightarrow> jsstring" where
  "trim s = rev (dropWhile isWhiteSpace (rev (dropWhile isWhiteSpace s)))"

text \<open>
  \<open>a || b\<close> on optional strings: the left operand when it is truthy (defined and
  not the empty string), the right operand otherwise.
\<close>

definition truthy :: "jsstring option \<Rightarrow> bool" where
  "truthy v = (case v of None \<Rightarrow> False | Some s \<Rightarrow> s \<noteq> [])"

definition orElse :: "jsstring option \<Rightarrow> jsstring \<Rightarrow> jsstring" where
  "orElse v d = (case v of None \<Rightarrow> d | Some s \<Rightarrow> if s = [] then d else s)"

text \<open>A template literal that spans several lines: the lines joined by line feeds.\<close>

fun joinLines :: "jsstring list \<Rightarrow> jsstring" where
  "joinLines [] = []"
| "joinLines [l] = l"
| "joinLines (l # ls) = l @ 0x0A # joinLines ls"


section \<open>The server library \<open>lib/ai/omni-voice.ts\<close>\<close>

datatype VoiceProvider = Vogent | Vapi | Ultravox

record Part =
  part_type :: jsstring
  part_text :: "jsstring option"

record ChatMessage =
  msg_role :: jsstring
  msg_parts :: "Part list"

record FormattedMessage =
  role :: jsstring
  content :: jsstring

text \<open>
  A thrown value: an \<open>Error\<close> object with its message, or anything else. A
  computation that may throw returns \<open>thrown + 'a\<close>.
\<close>

datatype thrown = Error jsstring | NonError

definition errorMessageOr :: "jsstring \<Rightarrow> thrown \<Rightarrow> jsstring" where
  "errorMessageOr d e = (case e of Error m \<Rightarrow> m | NonError \<Rightarrow> d)"

text \<open>An HTTP response as the code reads it: \<open>ok\<close>, \<open>status\<close> and the body text.\<close>

record Response =
  ok :: bool
  status_code :: nat
  body_text :: jsstring

subsection \<open>Conversation history\<close>

definition findTextPart :: "ChatMessage \<Rightarrow> Part option" where
  "findTextPart msg =
     find (\<lambda>p. part_type p = lit ''text'' \<and> truthy (part_text p)) (msg_parts msg)"

definition vapiRole :: "jsstring \<Rightarrow> jsstring" where
  "vapiRole r =
     (if r = lit ''user'' then lit ''user''
      else if r = lit ''system'' then lit ''system''
      else lit ''assistant'')"

definition ultravoxRole :: "jsstring \<Rightarrow> jsstring" where
  "ultravoxRole r = (if r = lit ''user'' then lit ''user'' else lit ''assistant'')"

text \<open>
  The callback of \<open>messages.map\<close>: \<open>null\<close> (here \<open>None\<close>) when no text part
  with a non-empty text is found, the pair otherwise.
\<close>

definition formatOne :: "(jsstring \<Rightarrow> jsstring) \<Rightarrow> ChatMessage \<Rightarrow> FormattedMessage option" where
  "formatOne toRole msg =
     (case findTextPart msg of
        None \<Rightarrow> None
      | Some textPart \<Rightarrow>
          (case part_text textPart of
             None \<Rightarrow> None
           | Some t \<Rightarrow>
               if t = [] then None else Some \<lparr>role = toRole (msg_role msg), content = t\<rparr>))"

definition formatMessagesForVapi :: "ChatMessage list \<Rightarrow> FormattedMessage list" where
  "formatMessagesForVapi messages = List.map_filter (formatOne vapiRole) messages"

definition formatMessagesForUltravox :: "ChatMessage list \<Rightarrow> FormattedMessage list" where
  "formatMessagesForUltravox messages = List.map_filter (formatOne ultravoxRole) messages"

subsection \<open>Call creation requests\<close>

text \<open>
  The configuration of a call and the JSON bodies posted to the providers. The
  temperature (a floating-point number), the voice of the Vapi assistant and the
  optional webhook fields read from the process environment are left out of the bodies.
\<close>

record CallConfig =
  systemPrompt :: jsstring
  cfg_model :: "jsstring option"
  cfg_voice :: "jsstring option"
  cfg_messages :: "ChatMessage list option"

record VapiBody =
  vapi_model_provider :: jsstring
  vapi_model :: jsstring
  vapi_messages :: "FormattedMessage list"
  vapi_firstMessage :: jsstring

definition vapiRequestBody :: "CallConfig \<Rightarrow> VapiBody" where
  "vapiRequestBody config =
     \<lparr>vapi_model_provider = lit ''openai'',
      vapi_model = orElse (cfg_model config) (lit ''gpt-4o''),
      vapi_messages =
        \<lparr>role = lit ''system'', content = systemPrompt config\<rparr> #
        (case cfg_messages config of
           Some ms \<Rightarrow> formatMessagesForVapi ms
         | None \<Rightarrow> []),
      vapi_firstMessage = lit ''Hello! How can I help you today?''\<rparr>"

record UltravoxBody =
  uv_systemPrompt :: jsstring
  uv_model :: jsstring
  uv_voice :: jsstring
  uv_languageHint :: jsstring
  uv_selectedTools :: "jsstring list"
  uv_initialMessages :: "FormattedMessage list option"

definition ultravoxRequestBody :: "CallConfig \<Rightarrow> UltravoxBody" where
  "ultravoxRequestBody config =
     (let initialMessages =
            (case cfg_messages config of
               Some ms \<Rightarrow> Some (formatMessagesForUltravox ms)
             | None \<Rightarrow> None)
      in \<lparr>uv_systemPrompt = systemPrompt config,
          uv_model = orElse (cfg_model config) (lit ''fixie-ai/ultravox-70B''),
          uv_voice = orElse (cfg_voice config) (lit ''Mark''),
          uv_languageHint = lit ''en'',
          uv_selectedTools = [lit ''webSearch'', lit ''getCurrentMayorOfNewYork''],
          uv_initialMessages =
            (case initialMessages of
               None \<Rightarrow> None
             | Some ims \<Rightarrow> if length ims > 0 then Some ims else None)\<rparr>)"

subsection \<open>Call termination\<close>

text \<open>
  Both functions issue one \<open>DELETE\<close> request; \<open>fetch\<close> either throws or yields a
  response. The result carries the lines written to \<open>console.error\<close> (their fixed
  part, here and in the hook) and either the thrown value or the normal return.
\<close>

definition endVapiCall :: "thrown + Response \<Rightarrow> jsstring list \<times> (thrown + unit)" where
  "endVapiCall fetched =
     (case fetched of
        Inl e \<Rightarrow> ([lit ''Failed to end Vapi call:''], Inr ())
      | Inr response \<Rightarrow>
          (if \<not> ok response \<and> status_code response \<noteq> 404
           then ([lit ''Failed to end Vapi call''], Inr ())
           else ([], Inr ())))"

definition endUltravoxCall :: "thrown + Response \<Rightarrow> jsstring list \<times> (thrown + unit)" where
  "endUltravoxCall fetched =
     (case fetched of
        Inl e \<Rightarrow> ([], Inl e)
      | Inr response \<Rightarrow>
          (if \<not> ok response \<and> status_code response \<notin> set [404, 410, 425]
           then ([lit ''Failed to end call''], Inl (Error (lit ''Failed to end call'')))
           else ([], Inr ())))"

definition DEFAULT_SYSTEM_PROMPT :: jsstring where
  "DEFAULT_SYSTEM_PROMPT = joinLines
     [lit ''You are an expert teaching assistant dedicated to helping students learn effectively.'',
      [],
      lit ''Your approach:'',
      lit ''- Ask probing questions to understand the student's current knowledge level'',
      lit ''- Identify knowledge gaps and misconceptions'',
      lit ''- Break down complex topics into digestible pieces'',
      lit ''- Use analogies and real-world examples to explain concepts'',
      lit ''- Encourage critical thinking rather than just giving answers'',
      lit ''- Celebrate progress and provide constructive feedback'',
      lit ''- Adapt your teaching style to the student's needs'',
      [],
      lit ''When a student asks a question:'',
      lit ''1. First assess what they already know about the topic'',
      lit ''2. Identify any misconceptions'',
      lit ''3. Build on their existing knowledge'',
      lit ''4. Check for understanding before moving on'',
      [],
      lit ''Use the web search tool when you need current information, statistics, or to verify facts.'',
      [],
      lit ''Keep responses conversational and engaging. Speak naturally without markdown or lists since this is a voice conversation.'']"


section \<open>The route \<open>app/(chat)/api/omni-voice/route.ts\<close>\<close>

text \<open>
  The body of a \<open>POST\<close> request and what the handler sends out for it, once the
  caller is authenticated: the request to the provider's call-creation endpoint.
\<close>

record PostBody =
  post_provider :: VoiceProvider
  post_systemPrompt :: "jsstring option"
  post_voice :: "jsstring option"
  post_model :: "jsstring option"
  post_messages :: "ChatMessage list option"

datatype Outbound =
    VogentDial
  | VapiCall VapiBody
  | UltravoxCall UltravoxBody

definition POST_outbound :: "PostBody \<Rightarrow> Outbound" where
  "POST_outbound body =
     (case post_provider body of
        Vogent \<Rightarrow> VogentDial
      | Vapi \<Rightarrow>
          VapiCall (vapiRequestBody
            \<lparr>systemPrompt = orElse (post_systemPrompt body) DEFAULT_SYSTEM_PROMPT,
             cfg_model = Some (orElse (post_model body) (lit ''gpt-4o'')),
             cfg_voice = Some (orElse (post_voice body) (lit ''Mark'')),
             cfg_messages = post_messages body\<rparr>)
      | Ultravox \<Rightarrow>
          UltravoxCall (ultravoxRequestBody
            \<lparr>systemPrompt = orElse (post_systemPrompt body) DEFAULT_SYSTEM_PROMPT,
             cfg_model = Some (orElse (post_model body) (lit ''fixie-ai/ultravox-70B'')),
             cfg_voice = Some (orElse (post_voice body) (lit ''Mark'')),
             cfg_messages = post_messages body\<rparr>))"

text \<open>
  The \<open>DELETE\<close> handler for an authenticated caller: the HTTP status it answers
  with, given the provider, the identifiers of the query string and the outcome of the
  provider's delete-call request.
\<close>

definition DELETE_status ::
  "VoiceProvider option \<Rightarrow> jsstring option \<Rightarrow> jsstring option \<Rightarrow> thrown + Response \<Rightarrow> nat" where
  "DELETE_status prov callId dialId fetched =
     (case prov of
        None \<Rightarrow> 400
      | Some Vogent \<Rightarrow> (if \<not> truthy dialId then 400 else 200)
      | Some Vapi \<Rightarrow>
          (if \<not> truthy callId then 400
           else (case snd (endVapiCall fetched) of Inl e \<Rightarrow> 500 | Inr u \<Rightarrow> 200))
      | Some Ultravox \<Rightarrow>
          (if \<not> truthy callId then 400
           else (case snd (endUltravoxCall fetched) of Inl e \<Rightarrow> 500 | Inr u \<Rightarrow> 200)))"


section \<open>The hook \<open>hooks/use-omni-chat.ts\<close>\<close>

subsection \<open>State\<close>

record Transcript =
  t_role :: jsstring
  t_text :: jsstring

text \<open>A transcript entry as the Vogent and Ultravox SDKs deliver it.\<close>

record RawTranscript =
  raw_text :: jsstring
  speaker :: jsstring

record OmniChatState =
  isConnected :: bool
  isConnecting :: bool
  status :: jsstring
  statusMessage :: jsstring
  transcripts :: "Transcript list"
  callId :: "jsstring option"
  error :: "jsstring option"
  isMuted :: bool
  provider :: VoiceProvider

datatype UltravoxSessionStatus =
  DISCONNECTED | DISCONNECTING | CONNECTING | IDLE | LISTENING | THINKING | SPEAKING

text \<open>The live \<open>UltravoxSession\<close> object, with the two fields the hook reads.\<close>

record UltravoxSession =
  session_status :: UltravoxSessionStatus
  session_transcripts :: "RawTranscript list"

text \<open>
  One instance of \<open>useOmniChat\<close>: the React state, \<open>options.provider\<close>, the refs of
  the three provider hooks, and what the hook has done to its surroundings: the number
  of connection objects constructed (\<open>new VogentCall\<close>, \<open>new Vapi\<close>,
  \<open>new UltravoxSession\<close>), the arguments passed to \<open>options.onStatusChange\<close> and
  the lines written to \<open>console.error\<close>, oldest first. A connection object is named
  by its number in order of construction. The listeners have no throwing path; they are
  functions from hook to hook, and their state updates are functions of the previous
  state. The \<open>state\<close> that \<open>startCall\<close> and \<open>endCall\<close> read is the one
  captured by the render that built the callback: these functions take it as the
  parameter \<open>captured\<close>.
\<close>

record Hook =
  state :: OmniChatState
  opt_provider :: VoiceProvider
  callRef :: "nat option"
  transcriptUnsubscribeRef :: bool
  vapiRef :: "nat option"
  sessionRef :: "UltravoxSession option"
  created :: nat
  statusChanges :: "jsstring list"
  console :: "jsstring list"

definition initialState :: "VoiceProvider \<Rightarrow> OmniChatState" where
  "initialState p =
     \<lparr>isConnected = False, isConnecting = False, status = lit ''disconnected'',
      statusMessage = lit ''Disconnected'', transcripts = [], callId = None, error = None,
      isMuted = False, provider = p\<rparr>"

definition initialHook :: "VoiceProvider \<Rightarrow> Hook" where
  "initialHook p =
     \<lparr>state = initialState p, opt_provider = p, callRef = None,
      transcriptUnsubscribeRef = False, vapiRef = None, sessionRef = None,
      created = 0, statusChanges = [], console = []\<rparr>"

subsection \<open>Status messages\<close>

definition getVogentStatusMessage :: "jsstring \<Rightarrow> jsstring" where
  "getVogentStatusMessage s =
     (if s = lit ''connecting'' then lit ''Connecting...''
      else if s = lit ''connected'' then lit ''Connected''
      else if s = lit ''ended'' then lit ''Call Ended''
      else if s = lit ''error'' then lit ''Error''
      else lit ''Unknown'')"

fun getUltravoxStatusMessage :: "UltravoxSessionStatus \<Rightarrow> jsstring" where
  "getUltravoxStatusMessage DISCONNECTED = lit ''Disconnected''"
| "getUltravoxStatusMessage DISCONNECTING = lit ''Disconnecting...''"
| "getUltravoxStatusMessage CONNECTING = lit ''Connecting...''"
| "getUltravoxStatusMessage IDLE = lit ''Connected - Ready''"
| "getUltravoxStatusMessage LISTENING = lit ''Listening...''"
| "getUltravoxStatusMessage THINKING = lit ''Thinking...''"
| "getUltravoxStatusMessage SPEAKING = lit ''Speaking...''"

subsection \<open>Vogent listeners\<close>

definition vogentRole :: "jsstring \<Rightarrow> jsstring" where
  "vogentRole sp =
     (let speaker = toUpperCase sp
      in if speaker = lit ''HUMAN'' \<or> speaker = lit ''USER'' then lit ''user'' else lit ''assistant'')"

definition formatVogentTranscripts :: "RawTranscript list \<Rightarrow> Transcript list" where
  "formatVogentTranscripts transcript =
     map (\<lambda>t. \<lparr>t_role = vogentRole (speaker t), t_text = raw_text t\<rparr>)
       (filter (\<lambda>t. raw_text t \<noteq> [] \<and> length (trim (raw_text t)) > 0) transcript)"

definition handleTranscriptUpdate :: "RawTranscript list \<Rightarrow> Hook \<Rightarrow> Hook" where
  "handleTranscriptUpdate transcript h =
     h\<lparr>state := (state h)\<lparr>transcripts := formatVogentTranscripts transcript\<rparr>\<rparr>"

definition vogentOnStatus :: "jsstring \<Rightarrow> Hook \<Rightarrow> Hook" where
  "vogentOnStatus raw h =
     (let normalizedStatus = toLowerCase raw;
          connected = (normalizedStatus = lit ''connected'')
      in h\<lparr>state := (state h)
             \<lparr>status := normalizedStatus,
              statusMessage := getVogentStatusMessage normalizedStatus,
              isConnected := connected,
              isConnecting := (if connected then False else isConnecting (state h))\<rparr>,
           statusChanges := statusChanges h @ [normalizedStatus]\<rparr>)"

subsection \<open>Vapi listeners\<close>

definition updateStatus :: "jsstring \<Rightarrow> jsstring \<Rightarrow> Hook \<Rightarrow> Hook" where
  "updateStatus s message h =
     h\<lparr>state := (state h)\<lparr>status := s, statusMessage := message\<rparr>,
       statusChanges := statusChanges h @ [s]\<rparr>"

definition vapiOnCallStart :: "Hook \<Rightarrow> Hook" where
  "vapiOnCallStart h =
     (let h1 = updateStatus (lit ''connected'') (lit ''Connected - Ready'') h
      in h1\<lparr>state := (state h1)\<lparr>isConnecting := False, isConnected := True\<rparr>\<rparr>)"

definition vapiOnCallEnd :: "Hook \<Rightarrow> Hook" where
  "vapiOnCallEnd h =
     (let h1 = updateStatus (lit ''disconnected'') (lit ''Disconnected'') h
      in h1\<lparr>state := (state h1)\<lparr>isConnected := False, callId := None\<rparr>\<rparr>)"

definition vapiOnSpeechStart :: "Hook \<Rightarrow> Hook" where
  "vapiOnSpeechStart h = updateStatus (lit ''listening'') (lit ''Listening...'') h"

definition vapiOnSpeechEnd :: "Hook \<Rightarrow> Hook" where
  "vapiOnSpeechEnd h = updateStatus (lit ''thinking'') (lit ''Thinking...'') h"

text \<open>
  A message of the Vapi SDK, with the fields the listener reads. The listener's second
  branch hands a function call to \<open>options.onToolCall\<close> and leaves the state alone; it
  is not part of the model.
\<close>

record VapiMessage =
  m_type :: jsstring
  transcriptType :: "jsstring option"
  m_role :: "jsstring option"
  transcript :: "jsstring option"
  m_content :: "jsstring option"

definition vapiMessageText :: "VapiMessage \<Rightarrow> jsstring" where
  "vapiMessageText message = orElse (transcript message) (orElse (m_content message) [])"

definition vapiMessageRole :: "VapiMessage \<Rightarrow> jsstring" where
  "vapiMessageRole message =
     (if m_role message = Some (lit ''user'') then lit ''user'' else lit ''assistant'')"

definition vapiOnMessage :: "VapiMessage \<Rightarrow> Hook \<Rightarrow> Hook" where
  "vapiOnMessage message h =
     (if m_type message = lit ''transcript'' \<and> transcriptType message = Some (lit ''final'')
      then (if trim (vapiMessageText message) = [] then h
            else h\<lparr>state := (state h)
                    \<lparr>transcripts := transcripts (state h) @
                       [\<lparr>t_role = vapiMessageRole message, t_text = vapiMessageText message\<rparr>]\<rparr>\<rparr>)
      else h)"

fun includesStr :: "jsstring \<Rightarrow> jsstring \<Rightarrow> bool" where
  "includesStr [] sub = (sub = [])"
| "includesStr (c # cs) sub = (take (length sub) (c # cs) = sub \<or> includesStr cs sub)"

definition benign :: "jsstring \<Rightarrow> bool" where
  "benign errorMessage =
     (includesStr (toLowerCase errorMessage) (lit ''meeting ended'') \<or>
      includesStr (toLowerCase errorMessage) (lit ''ejection''))"

text \<open>The error listener, applied to \<open>error?.message || error?.error?.message || ""\<close>.\<close>

definition vapiOnError :: "jsstring \<Rightarrow> Hook \<Rightarrow> Hook" where
  "vapiOnError errorMessage h =
     (if benign errorMessage then h
      else if errorMessage \<noteq> []
      then h\<lparr>state := (state h)\<lparr>error := Some errorMessage\<rparr>,
             console := console h @ [lit ''Vapi error:'']\<rparr>
      else h)"

subsection \<open>Ultravox listeners\<close>

text \<open>
  \<open>UltravoxSessionStatus\<close> is an enumeration of the SDK. What \<open>String(status)\<close>
  yields for its members is not fixed by the hook, so the status listener takes it as
  the parameter \<open>str\<close>.
\<close>

definition ultravoxRoleOf :: "jsstring \<Rightarrow> jsstring" where
  "ultravoxRoleOf sp = (if toLowerCase sp = lit ''user'' then lit ''user'' else lit ''assistant'')"

definition updateTranscripts :: "Hook \<Rightarrow> Hook" where
  "updateTranscripts h =
     (case sessionRef h of
        None \<Rightarrow> h
      | Some session \<Rightarrow>
          h\<lparr>state := (state h)
              \<lparr>transcripts :=
                 map (\<lambda>t. \<lparr>t_role = ultravoxRoleOf (speaker t), t_text = raw_text t\<rparr>)
                   (session_transcripts session)\<rparr>\<rparr>)"

definition ultravoxOnStatus ::
  "(UltravoxSessionStatus \<Rightarrow> jsstring) \<Rightarrow> UltravoxSessionStatus \<Rightarrow> Hook \<Rightarrow> Hook" where
  "ultravoxOnStatus str s h =
     h\<lparr>state := (state h)
         \<lparr>status := str s,
          statusMessage := getUltravoxStatusMessage s,
          isConnected := (s \<noteq> DISCONNECTED \<and> s \<noteq> DISCONNECTING)\<rparr>,
       statusChanges := statusChanges h @ [str s]\<rparr>"

subsection \<open>Starting a call\<close>

text \<open>
  What the surroundings answer to one run of \<open>startCall\<close>: the outcome of every
  awaited call, in the order the three provider hooks make them. \<open>env_json\<close> is the
  parsed response of \<open>/api/omni-voice\<close>, \<open>env_open\<close> is \<open>call.start()\<close> for
  Vogent and \<open>session.joinCall(joinUrl)\<close> for Ultravox, \<open>env_vapiStart\<close> is
  \<open>vapi.start(assistantId)\<close> with the \<open>id\<close> of the call it resolves to.
\<close>

record Credentials =
  sessionId :: jsstring
  dialId :: jsstring
  dialToken :: jsstring
  joinUrl :: jsstring
  cred_callId :: jsstring

record StartEnv =
  env_import :: "thrown + unit"
  env_fetch :: "thrown + Response"
  env_json :: "thrown + Credentials"
  env_open :: "thrown + unit"
  env_connectAudio :: "thrown + unit"
  env_vapiStart :: "thrown + jsstring option"

definition guard :: "OmniChatState \<Rightarrow> bool" where
  "guard captured = (isConnecting captured \<or> isConnected captured)"

definition beginStart :: "Hook \<Rightarrow> Hook" where
  "beginStart h = h\<lparr>state := (state h)\<lparr>isConnecting := True, error := None\<rparr>\<rparr>"

text \<open>
  The \<open>try\<close> blocks: the value thrown, if any, and the hook as it is when the block
  is left.
\<close>

definition vogentTry :: "StartEnv \<Rightarrow> Hook \<Rightarrow> thrown option \<times> Hook" where
  "vogentTry env h =
     (case env_import env of Inl e \<Rightarrow> (Some e, h) | Inr u \<Rightarrow>
      case env_fetch env of Inl e \<Rightarrow> (Some e, h) | Inr response \<Rightarrow>
      if \<not> ok response then (Some (Error (body_text response)), h) else
      case env_json env of Inl e \<Rightarrow> (Some e, h) | Inr creds \<Rightarrow>
      let h1 = h\<lparr>callRef := Some (created h), created := created h + 1,
                 transcriptUnsubscribeRef := True\<rparr>
      in case env_open env of Inl e \<Rightarrow> (Some e, h1) | Inr u \<Rightarrow>
         case env_connectAudio env of Inl e \<Rightarrow> (Some e, h1) | Inr u \<Rightarrow>
         (None, h1\<lparr>state := (state h1)
                     \<lparr>isConnecting := False, isConnected := True,
                      callId := Some (dialId creds), status := lit ''connected''\<rparr>\<rparr>))"

definition vapiTry :: "StartEnv \<Rightarrow> Hook \<Rightarrow> thrown option \<times> Hook" where
  "vapiTry env h =
     (case env_import env of Inl e \<Rightarrow> (Some e, h) | Inr u \<Rightarrow>
      let h1 = h\<lparr>vapiRef := Some (created h), created := created h + 1\<rparr>
      in case env_vapiStart env of Inl e \<Rightarrow> (Some e, h1) | Inr call_id \<Rightarrow>
         (None, if truthy call_id then h1\<lparr>state := (state h1)\<lparr>callId := call_id\<rparr>\<rparr> else h1))"

definition ultravoxTry :: "StartEnv \<Rightarrow> Hook \<Rightarrow> thrown option \<times> Hook" where
  "ultravoxTry env h =
     (case env_import env of Inl e \<Rightarrow> (Some e, h) | Inr u \<Rightarrow>
      case env_fetch env of Inl e \<Rightarrow> (Some e, h) | Inr response \<Rightarrow>
      if \<not> ok response then (Some (Error (body_text response)), h) else
      case env_json env of Inl e \<Rightarrow> (Some e, h) | Inr creds \<Rightarrow>
      let h1 = h\<lparr>sessionRef := Some \<lparr>session_status = DISCONNECTED, session_transcripts = []\<rparr>,
                 created := created h + 1\<rparr>
      in case env_open env of Inl e \<Rightarrow> (Some e, h1) | Inr u \<Rightarrow>
         (None, h1\<lparr>state := (state h1)
                     \<lparr>isConnecting := False, isConnected := True,
                      callId := Some (cred_callId creds)\<rparr>\<rparr>))"

definition providerTry :: "VoiceProvider \<Rightarrow> StartEnv \<Rightarrow> Hook \<Rightarrow> thrown option \<times> Hook" where
  "providerTry p env h =
     (case p of Vogent \<Rightarrow> vogentTry env h | Vapi \<Rightarrow> vapiTry env h | Ultravox \<Rightarrow> ultravoxTry env h)"

text \<open>The \<open>catch\<close> block shared by the three \<open>startCall\<close> functions.\<close>

definition catchStart :: "thrown option \<times> Hook \<Rightarrow> Hook" where
  "catchStart r =
     (case r of
        (None, h) \<Rightarrow> h
      | (Some e, h) \<Rightarrow>
          h\<lparr>state := (state h)
              \<lparr>isConnecting := False,
               error := Some (errorMessageOr (lit ''Failed to start call'') e)\<rparr>\<rparr>)"

text \<open>
  \<open>startCall\<close> of the provider hook \<open>p\<close>, invoked through a callback that
  captured the state \<open>captured\<close>. It runs up to its first \<open>await\<close>
  (\<open>beginStart\<close>) and resumes later (\<open>resumeStart\<close>); \<open>providerStartCall\<close> is
  the run that nothing interrupts.
\<close>

definition resumeStart :: "VoiceProvider \<Rightarrow> StartEnv \<Rightarrow> Hook \<Rightarrow> Hook" where
  "resumeStart p env h = catchStart (providerTry p env h)"

definition providerStartCall ::
  "VoiceProvider \<Rightarrow> OmniChatState \<Rightarrow> StartEnv \<Rightarrow> Hook \<Rightarrow> Hook" where
  "providerStartCall p captured env h =
     (if guard captured then h else resumeStart p env (beginStart h))"

text \<open>
  \<open>startCall\<close> of \<open>useOmniChat\<close>: \<open>startCallVia\<close> through a callback that
  captured the given state, \<open>startCall\<close> through the callback of a render that follows
  the last write of the state.
\<close>

definition startCallVia :: "OmniChatState \<Rightarrow> StartEnv \<Rightarrow> Hook \<Rightarrow> Hook" where
  "startCallVia captured env h = providerStartCall (opt_provider h) captured env h"

definition startCall :: "StartEnv \<Rightarrow> Hook \<Rightarrow> Hook" where
  "startCall env h = startCallVia (state h) env h"

definition startThrows :: "StartEnv \<Rightarrow> Hook \<Rightarrow> bool" where
  "startThrows env h = (fst (providerTry (opt_provider h) env (beginStart h)) \<noteq> None)"

subsection \<open>Ending a call\<close>

text \<open>
  The surroundings of \<open>endCall\<close>: the stored unsubscribe function, the SDK's teardown
  (\<open>hangup()\<close>, \<open>stop()\<close>, \<open>leaveCall()\<close>) and the \<open>DELETE\<close> request to
  \<open>/api/omni-voice\<close>. Each provider's \<open>endCall\<close> returns the value it throws or the
  hook it leaves; the call identifier it reads is the one of the captured state.
\<close>

record EndEnv =
  env_unsubscribe :: "thrown + unit"
  env_teardown :: "thrown + unit"
  env_delete :: "thrown + Response"

definition vogentEndCall :: "OmniChatState \<Rightarrow> EndEnv \<Rightarrow> Hook \<Rightarrow> thrown + Hook" where
  "vogentEndCall captured env h =
     (if callRef h = None then Inr h
      else
        let tried =
              (case (if transcriptUnsubscribeRef h then env_unsubscribe env else Inr ()) of
                 Inl e \<Rightarrow> (Some e, h)
               | Inr u \<Rightarrow>
                   let h1 = h\<lparr>transcriptUnsubscribeRef := False\<rparr>
                   in case env_teardown env of Inl e \<Rightarrow> (Some e, h1) | Inr u \<Rightarrow>
                      if truthy (callId captured)
                      then (case env_delete env of Inl e \<Rightarrow> (Some e, h1) | Inr r \<Rightarrow> (None, h1))
                      else (None, h1));
            caught =
              (case tried of
                 (None, h2) \<Rightarrow> h2
               | (Some e, h2) \<Rightarrow> h2\<lparr>console := console h2 @ [lit ''Error ending Vogent call:'']\<rparr>)
        in Inr (caught\<lparr>callRef := None\<rparr>))"

definition vapiEndCall :: "EndEnv \<Rightarrow> Hook \<Rightarrow> thrown + Hook" where
  "vapiEndCall env h =
     (if vapiRef h = None then Inr h
      else
        let caught =
              (case env_teardown env of
                 Inr u \<Rightarrow> h
               | Inl e \<Rightarrow>
                   (if \<not> benign (errorMessageOr [] e)
                    then h\<lparr>console := console h @ [lit ''Error ending Vapi call:'']\<rparr>
                    else h))
        in Inr (caught\<lparr>vapiRef := None\<rparr>))"

definition ultravoxEndCall :: "OmniChatState \<Rightarrow> EndEnv \<Rightarrow> Hook \<Rightarrow> thrown + Hook" where
  "ultravoxEndCall captured env h =
     (if sessionRef h = None then Inr h
      else
        let tried =
              (case env_teardown env of Inl e \<Rightarrow> Some e | Inr u \<Rightarrow>
               if truthy (callId captured)
               then (case env_delete env of Inl e \<Rightarrow> Some e | Inr r \<Rightarrow> None)
               else None);
            caught =
              (case tried of
                 None \<Rightarrow> h
               | Some e \<Rightarrow> h\<lparr>console := console h @ [lit ''Error ending Ultravox call:'']\<rparr>)
        in Inr (caught\<lparr>sessionRef := None\<rparr>))"

definition providerEndCall ::
  "VoiceProvider \<Rightarrow> OmniChatState \<Rightarrow> EndEnv \<Rightarrow> Hook \<Rightarrow> thrown + Hook" where
  "providerEndCall p captured env h =
     (case p of
        Vogent \<Rightarrow> vogentEndCall captured env h
      | Vapi \<Rightarrow> vapiEndCall env h
      | Ultravox \<Rightarrow> ultravoxEndCall captured env h)"

text \<open>
  \<open>endCall\<close> of \<open>useOmniChat\<close>: the reset runs after \<open>await provider.endCall()\<close>,
  so a value thrown there would leave the function before the reset. \<open>endCallVia\<close>
  goes through a callback that captured the given state, \<open>endCall\<close> through the
  callback of a render that follows the last write of the state.
\<close>

definition endCallVia :: "OmniChatState \<Rightarrow> EndEnv \<Rightarrow> Hook \<Rightarrow> thrown + Hook" where
  "endCallVia captured env h =
     (case providerEndCall (opt_provider h) captured env h of
        Inl e \<Rightarrow> Inl e
      | Inr h1 \<Rightarrow>
          Inr (h1\<lparr>state := (state h1)
                   \<lparr>isConnected := False, isConnecting := False, status := lit ''disconnected'',
                    statusMessage := lit ''Disconnected'', transcripts := [], callId := None,
                    error := None, isMuted := False\<rparr>\<rparr>))"

definition endCall :: "EndEnv \<Rightarrow> Hook \<Rightarrow> thrown + Hook" where
  "endCall env h = endCallVia (state h) env h"

subsection \<open>Events\<close>

text \<open>
  What the provider SDKs deliver to the listeners registered by \<open>startCall\<close>. An
  Ultravox event first stores the new value in the live session object, as the SDK
  does, and then runs the listener.
\<close>

datatype Event =
    VogentStatus jsstring
  | VogentTranscript "RawTranscript list"
  | VapiCallStart
  | VapiCallEnd
  | VapiSpeechStart
  | VapiSpeechEnd
  | VapiMsg VapiMessage
  | VapiError jsstring
  | UltravoxStatus UltravoxSessionStatus
  | UltravoxTranscripts "RawTranscript list"

fun handleEvent :: "(UltravoxSessionStatus \<Rightarrow> jsstring) \<Rightarrow> Event \<Rightarrow> Hook \<Rightarrow> Hook" where
  "handleEvent str (VogentStatus raw) h = vogentOnStatus raw h"
| "handleEvent str (VogentTranscript ts) h = handleTranscriptUpdate ts h"
| "handleEvent str VapiCallStart h = vapiOnCallStart h"
| "handleEvent str VapiCallEnd h = vapiOnCallEnd h"
| "handleEvent str VapiSpeechStart h = vapiOnSpeechStart h"
| "handleEvent str VapiSpeechEnd h = vapiOnSpeechEnd h"
| "handleEvent str (VapiMsg m) h = vapiOnMessage m h"
| "handleEvent str (VapiError m) h = vapiOnError m h"
| "handleEvent str (UltravoxStatus s) h =
     ultravoxOnStatus str s
       (h\<lparr>sessionRef := map_option (\<lambda>x. x\<lparr>session_status := s\<rparr>) (sessionRef h)\<rparr>)"
| "handleEvent str (UltravoxTranscripts ts) h =
     updateTranscripts
       (h\<lparr>sessionRef := map_option (\<lambda>x. x\<lparr>session_transcripts := ts\<rparr>) (sessionRef h)\<rparr>)"

text \<open>The status field before the first event and after each event.\<close>

fun statusTrace :: "(UltravoxSessionStatus \<Rightarrow> jsstring) \<Rightarrow> Hook \<Rightarrow> Event list \<Rightarrow> jsstring list" where
  "statusTrace str h [] = [status (state h)]"
| "statusTrace str h (e # es) = status (state h) # statusTrace str (handleEvent str e h) es"


section \<open>Notions of the specification\<close>

text \<open>
  The canonical status enumeration. The hook itself has no such type: its status
  field is a string.
\<close>

definition canonicalStatuses :: "jsstring list" where
  "canonicalStatuses =
     [lit ''disconnected'', lit ''connecting'', lit ''connected'', lit ''listening'', lit ''thinking'',
      lit ''speaking'', lit ''error'']"

text \<open>The values of the type \<open>VogentStatus\<close> declared in \<open>lib/ai/omni-voice.ts\<close>.\<close>

definition vogentStatuses :: "jsstring list" where
  "vogentStatuses = [lit ''connecting'', lit ''connected'', lit ''ended'', lit ''error'']"

definition activityStatuses :: "jsstring list" where
  "activityStatuses = [lit ''listening'', lit ''thinking'', lit ''speaking'']"

text \<open>
  In a sequence of statuses, \<open>connected\<close> is reached before any of \<open>listening\<close>,
  \<open>thinking\<close>, \<open>speaking\<close> (or none of these occurs).
\<close>

fun connectedFirst :: "jsstring list \<Rightarrow> bool" where
  "connectedFirst [] = True"
| "connectedFirst (s # ss) =
     (if s = lit ''connected'' then True
      else if s \<in> set activityStatuses then False
      else connectedFirst ss)"

text \<open>The status an event of a provider reports, if it reports one.\<close>

fun reported :: "(UltravoxSessionStatus \<Rightarrow> jsstring) \<Rightarrow> Event \<Rightarrow> jsstring option" where
  "reported str (VogentStatus raw) = Some (toLowerCase raw)"
| "reported str VapiCallStart = Some (lit ''connected'')"
| "reported str VapiCallEnd = Some (lit ''disconnected'')"
| "reported str VapiSpeechStart = Some (lit ''listening'')"
| "reported str VapiSpeechEnd = Some (lit ''thinking'')"
| "reported str (UltravoxStatus s) = Some (str s)"
| "reported str e = None"





definition blank :: "jsstring \<Rightarrow> bool" where
  "blank s = list_all isWhiteSpace s"

text \<open>
  The text payload of a chat message: the text of its first text part that has a
  non-empty text, the empty string when it has none.
\<close>

fun textPayload :: "Part list \<Rightarrow> jsstring" where
  "textPayload [] = []"
| "textPayload (p # ps) =
     (case part_text p of
        Some t \<Rightarrow> if part_type p = lit ''text'' \<and> t \<noteq> [] then t else textPayload ps
      | None \<Rightarrow> textPayload ps)"


section \<open>Sample surroundings\<close>

text \<open>
  Surroundings in which every awaited call of \<open>startCall\<close> succeeds, surroundings in
  which its \<open>fetch\<close> throws, and surroundings of \<open>endCall\<close> in which the SDK's
  teardown throws.
\<close>

definition allSucceed :: StartEnv where
  "allSucceed =
     \<lparr>env_import = Inr (),
      env_fetch = Inr \<lparr>ok = True, status_code = 200, body_text = []\<rparr>,
      env_json = Inr \<lparr>sessionId = lit ''s1'', dialId = lit ''d1'', dialToken = lit ''t1'',
                      joinUrl = lit ''wss://join'', cred_callId = lit ''c1''\<rparr>,
      env_open = Inr (),
      env_connectAudio = Inr (),
      env_vapiStart = Inr (Some (lit ''c1''))\<rparr>"


definition teardownThrows :: EndEnv where
  "teardownThrows =
     \<lparr>env_unsubscribe = Inr (),
      env_teardown = Inl (Error (lit ''hangup failed'')),
      env_delete = Inr \<lparr>ok = True, status_code = 200, body_text = lit ''Call ended''\<rparr>\<rparr>"

text \<open>
  The strings of the SDK's status enumeration taken to be the lower-case names of its
  members, as the panel component expects when it compares the status with \<open>idle\<close>.
\<close>

fun lowerCaseNames :: "UltravoxSessionStatus \<Rightarrow> jsstring" where
  "lowerCaseNames DISCONNECTED = lit ''disconnected''"
| "lowerCaseNames DISCONNECTING = lit ''disconnecting''"
| "lowerCaseNames CONNECTING = lit ''connecting''"
| "lowerCaseNames IDLE = lit ''idle''"
| "lowerCaseNames LISTENING = lit ''listening''"
| "lowerCaseNames THINKING = lit ''thinking''"
| "lowerCaseNames SPEAKING = lit ''speaking''"


section \<open>Properties\<close>

subsection \<open>Terminating a call\<close>

text \<open>
  C8. \<open>endUltravoxCall\<close> returns normally, and logs nothing, when the delete-call
  endpoint answers 404, 410 or 425; \<open>endVapiCall\<close> does so when it answers 404, and
  returns normally whatever the endpoint does. The \<open>DELETE\<close> handler then answers 200.
\<close>

theorem terminate_tolerates_gone:
  "(status_code r = 404 \<or> status_code r = 410 \<or> status_code r = 425 \<longrightarrow>
      endUltravoxCall (Inr r) = ([], Inr ()) \<and>
      (truthy cid \<longrightarrow> DELETE_status (Some Ultravox) cid did (Inr r) = 200)) \<and>
   (status_code r = 404 \<longrightarrow>
      endVapiCall (Inr r) = ([], Inr ()) \<and>
      (truthy cid \<longrightarrow> DELETE_status (Some Vapi) cid did (Inr r) = 200)) \<and>
   snd (endVapiCall fetched) = Inr ()"
  by (auto simp: endUltravoxCall_def endVapiCall_def DELETE_status_def
           split: sum.splits)

theorem terminate_tolerates_gone_witness:
  "endUltravoxCall (Inr \<lparr>ok = False, status_code = 410, body_text = lit ''Gone''\<rparr>) = ([], Inr ()) \<and>
   DELETE_status (Some Ultravox) (Some (lit ''c1'')) None
     (Inr \<lparr>ok = False, status_code = 410, body_text = lit ''Gone''\<rparr>) = 200 \<and>
   endVapiCall (Inr \<lparr>ok = False, status_code = 404, body_text = lit ''Not Found''\<rparr>) = ([], Inr ()) \<and>
   DELETE_status (Some Vapi) (Some (lit ''c1'')) None
     (Inr \<lparr>ok = False, status_code = 404, body_text = lit ''Not Found''\<rparr>) = 200"
  using terminate_tolerates_gone
          [of "\<lparr>ok = False, status_code = 410, body_text = lit ''Gone''\<rparr>" "Some (lit ''c1'')" None]
        terminate_tolerates_gone
          [of "\<lparr>ok = False, status_code = 404, body_text = lit ''Not Found''\<rparr>" "Some (lit ''c1'')" None]
  by (simp add: truthy_def lit_def)

subsection \<open>Conversation history\<close>

lemma textPayload_find:
  "(case find (\<lambda>p. part_type p = lit ''text'' \<and> truthy (part_text p)) ps of
      None \<Rightarrow> textPayload ps = []
    | Some p \<Rightarrow> part_text p = Some (textPayload ps) \<and> textPayload ps \<noteq> [])"
  by (induction ps) (auto simp: truthy_def split: option.splits)

lemma formatOne_payload:
  "formatOne toRole m =
     (if textPayload (msg_parts m) = [] then None
      else Some \<lparr>role = toRole (msg_role m), content = textPayload (msg_parts m)\<rparr>)"
  using textPayload_find [of "msg_parts m"]
  by (auto simp: formatOne_def findTextPart_def truthy_def split: option.splits)

lemma format_history:
  "List.map_filter (formatOne toRole) ms =
     map (\<lambda>m. \<lparr>role = toRole (msg_role m), content = textPayload (msg_parts m)\<rparr>)
       (filter (\<lambda>m. textPayload (msg_parts m) \<noteq> []) ms)"
  by (induction ms) (simp_all add: formatOne_payload)

text \<open>
  C10. \<open>formatMessagesForUltravox\<close> emits only the roles \<open>user\<close> and
  \<open>assistant\<close>: it keeps the messages with a non-empty text payload, in order, and
  gives each the role \<open>user\<close> when its role is exactly \<open>user\<close> and \<open>assistant\<close>
  otherwise (so also for \<open>system\<close>). The \<open>initialMessages\<close> of the request body of
  \<open>createUltravoxCall\<close>, when present, therefore hold no other role.
\<close>

theorem ultravox_history_roles:
  "(\<forall>e \<in> set (formatMessagesForUltravox ms). role e = lit ''user'' \<or> role e = lit ''assistant'') \<and>
   formatMessagesForUltravox ms =
     map (\<lambda>m. \<lparr>role = (if msg_role m = lit ''user'' then lit ''user'' else lit ''assistant''),
               content = textPayload (msg_parts m)\<rparr>)
       (filter (\<lambda>m. textPayload (msg_parts m) \<noteq> []) ms) \<and>
   (\<forall>ims. uv_initialMessages (ultravoxRequestBody config) = Some ims \<longrightarrow>
      (\<forall>e \<in> set ims. role e = lit ''user'' \<or> role e = lit ''assistant''))"
  by (auto simp: formatMessagesForUltravox_def format_history ultravoxRole_def
      ultravoxRequestBody_def Let_def split: option.splits if_splits)

theorem ultravox_history_roles_witness:
  "formatMessagesForUltravox
     [\<lparr>msg_role = lit ''system'', msg_parts = [\<lparr>part_type = lit ''text'', part_text = Some (lit ''Be kind.'')\<rparr>]\<rparr>,
      \<lparr>msg_role = lit ''user'', msg_parts = [\<lparr>part_type = lit ''text'', part_text = Some (lit ''hi'')\<rparr>]\<rparr>,
      \<lparr>msg_role = lit ''assistant'', msg_parts = [\<lparr>part_type = lit ''text'', part_text = Some []\<rparr>]\<rparr>]
   = [\<lparr>role = lit ''assistant'', content = lit ''Be kind.''\<rparr>, \<lparr>role = lit ''user'', content = lit ''hi''\<rparr>] \<and>
   uv_initialMessages (ultravoxRequestBody
     \<lparr>systemPrompt = lit ''Be brief.'', cfg_model = None, cfg_voice = None,
      cfg_messages = Some
        [\<lparr>msg_role = lit ''system'', msg_parts = [\<lparr>part_type = lit ''text'', part_text = Some (lit ''Be kind.'')\<rparr>]\<rparr>]\<rparr>)
   = Some [\<lparr>role = lit ''assistant'', content = lit ''Be kind.''\<rparr>]"
  using ultravox_history_roles
    [of "[\<lparr>msg_role = lit ''system'', msg_parts = [\<lparr>part_type = lit ''text'', part_text = Some (lit ''Be kind.'')\<rparr>]\<rparr>,
          \<lparr>msg_role = lit ''user'', msg_parts = [\<lparr>part_type = lit ''text'', part_text = Some (lit ''hi'')\<rparr>]\<rparr>,
          \<lparr>msg_role = lit ''assistant'', msg_parts = [\<lparr>part_type = lit ''text'', part_text = Some []\<rparr>]\<rparr>]"
        "\<lparr>systemPrompt = lit ''Be brief.'', cfg_model = None, cfg_voice = None,
          cfg_messages = Some
            [\<lparr>msg_role = lit ''system'', msg_parts = [\<lparr>part_type = lit ''text'', part_text = Some (lit ''Be kind.'')\<rparr>]\<rparr>]\<rparr>"]
  by (simp add: ultravoxRequestBody_def formatMessagesForUltravox_def formatOne_def findTextPart_def truthy_def ultravoxRole_def lit_def)

text \<open>
  C7. Both history formatters keep the messages that have a non-empty text payload, in
  order, and translate each to a pair of role and content; a message whose text payload
  is empty is dropped. For Vapi the system prompt, the one of the request or the default
  one, is the first entry of the message list sent. For Ultravox the system prompt is
  sent in the field \<open>systemPrompt\<close> of the request, and the message list
  (\<open>initialMessages\<close>) is the translated history alone, left out when it is empty.
\<close>

theorem history_translated_prompt_placed:
  "formatMessagesForVapi ms =
     map (\<lambda>m. \<lparr>role = vapiRole (msg_role m), content = textPayload (msg_parts m)\<rparr>)
       (filter (\<lambda>m. textPayload (msg_parts m) \<noteq> []) ms) \<and>
   formatMessagesForUltravox ms =
     map (\<lambda>m. \<lparr>role = ultravoxRole (msg_role m), content = textPayload (msg_parts m)\<rparr>)
       (filter (\<lambda>m. textPayload (msg_parts m) \<noteq> []) ms) \<and>
   (post_provider body = Vapi \<longrightarrow>
      (\<exists>b. POST_outbound body = VapiCall b \<and>
           vapi_messages b =
             \<lparr>role = lit ''system'',
              content = orElse (post_systemPrompt body) DEFAULT_SYSTEM_PROMPT\<rparr> #
             (case post_messages body of Some hs \<Rightarrow> formatMessagesForVapi hs | None \<Rightarrow> []))) \<and>
   (post_provider body = Ultravox \<longrightarrow>
      (\<exists>b. POST_outbound body = UltravoxCall b \<and>
           uv_systemPrompt b = orElse (post_systemPrompt body) DEFAULT_SYSTEM_PROMPT \<and>
           uv_initialMessages b =
             (case post_messages body of
                Some hs \<Rightarrow>
                  if formatMessagesForUltravox hs = [] then None
                  else Some (formatMessagesForUltravox hs)
              | None \<Rightarrow> None)))"
  by (auto simp: formatMessagesForVapi_def formatMessagesForUltravox_def format_history
      POST_outbound_def vapiRequestBody_def ultravoxRequestBody_def Let_def
      split: option.splits)

theorem history_translated_prompt_placed_witness:
  "(\<exists>b. POST_outbound
          \<lparr>post_provider = Vapi, post_systemPrompt = Some (lit ''Be brief.''), post_voice = None,
           post_model = None,
           post_messages = Some
             [\<lparr>msg_role = lit ''user'', msg_parts = [\<lparr>part_type = lit ''text'', part_text = Some (lit ''hi'')\<rparr>]\<rparr>,
              \<lparr>msg_role = lit ''assistant'', msg_parts = [\<lparr>part_type = lit ''text'', part_text = Some []\<rparr>]\<rparr>]\<rparr>
        = VapiCall b \<and>
        vapi_messages b =
          [\<lparr>role = lit ''system'', content = lit ''Be brief.''\<rparr>, \<lparr>role = lit ''user'', content = lit ''hi''\<rparr>]) \<and>
   (\<exists>b. POST_outbound
          \<lparr>post_provider = Ultravox, post_systemPrompt = None, post_voice = None,
           post_model = None,
           post_messages = Some
             [\<lparr>msg_role = lit ''user'', msg_parts = [\<lparr>part_type = lit ''text'', part_text = Some (lit ''hi'')\<rparr>]\<rparr>]\<rparr>
        = UltravoxCall b \<and>
        uv_systemPrompt b = DEFAULT_SYSTEM_PROMPT \<and>
        uv_initialMessages b = Some [\<lparr>role = lit ''user'', content = lit ''hi''\<rparr>])"
  using history_translated_prompt_placed
    [of _
        "\<lparr>post_provider = Vapi, post_systemPrompt = Some (lit ''Be brief.''), post_voice = None,
          post_model = None,
          post_messages = Some
            [\<lparr>msg_role = lit ''user'', msg_parts = [\<lparr>part_type = lit ''text'', part_text = Some (lit ''hi'')\<rparr>]\<rparr>,
             \<lparr>msg_role = lit ''assistant'', msg_parts = [\<lparr>part_type = lit ''text'', part_text = Some []\<rparr>]\<rparr>]\<rparr>"]
    history_translated_prompt_placed
    [of _
        "\<lparr>post_provider = Ultravox, post_systemPrompt = None, post_voice = None,
          post_model = None,
          post_messages = Some
            [\<lparr>msg_role = lit ''user'', msg_parts = [\<lparr>part_type = lit ''text'', part_text = Some (lit ''hi'')\<rparr>]\<rparr>]\<rparr>"]
  by (simp add: orElse_def formatMessagesForVapi_def formatMessagesForUltravox_def
      formatOne_def findTextPart_def truthy_def vapiRole_def
      ultravoxRole_def lit_def)

text \<open>
  C7 as the specification words it does not hold for Ultravox, a provider that takes
  the system prompt of the request: the prompt travels in its own field, and the first
  entry of the message list is the first message of the history.
\<close>

theorem ultravox_prompt_outside_message_list:
  "POST_outbound
     \<lparr>post_provider = Ultravox, post_systemPrompt = Some (lit ''Be brief.''), post_voice = None,
      post_model = None,
      post_messages = Some
        [\<lparr>msg_role = lit ''user'', msg_parts = [\<lparr>part_type = lit ''text'', part_text = Some (lit ''hi'')\<rparr>]\<rparr>]\<rparr>
   = UltravoxCall
       \<lparr>uv_systemPrompt = lit ''Be brief.'', uv_model = lit ''fixie-ai/ultravox-70B'', uv_voice = lit ''Mark'',
        uv_languageHint = lit ''en'',
        uv_selectedTools = [lit ''webSearch'', lit ''getCurrentMayorOfNewYork''],
        uv_initialMessages = Some [\<lparr>role = lit ''user'', content = lit ''hi''\<rparr>]\<rparr>"
  by (simp add: POST_outbound_def ultravoxRequestBody_def orElse_def
      formatMessagesForUltravox_def formatOne_def findTextPart_def
      truthy_def ultravoxRole_def lit_def)

subsection \<open>Letter case and blank text\<close>

















lemma dropWhile_all: "(\<forall>x \<in> set (dropWhile P s). P x) \<longleftrightarrow> (\<forall>x \<in> set s. P x)"
  by (induction s) auto

lemma trim_blank: "trim s = [] \<longleftrightarrow> blank s"
  by (simp add: trim_def blank_def list_all_iff dropWhile_eq_Nil_conv dropWhile_all)

lemma blank_Nil: "blank []"
  by (simp add: blank_def)

subsection \<open>Transcripts\<close>




text \<open>
  C5. The Vapi message listener leaves the transcripts as they are for a message whose
  \<open>transcriptType\<close> is not \<open>final\<close>. For a message of type \<open>transcript\<close>
  marked \<open>final\<close> whose text (\<open>transcript\<close>, or \<open>content\<close> when \<open>transcript\<close>
  is missing or empty) is not blank, it appends exactly one entry at the end: the role
  \<open>user\<close> when the role of the message is \<open>user\<close> and \<open>assistant\<close> otherwise,
  with that text; in particular a non-blank \<open>transcript\<close> is the text appended. For
  every other message (another type, or a blank text) it appends nothing.
\<close>

theorem vapi_only_final_transcripts:
  "(transcriptType m \<noteq> Some (lit ''final'') \<longrightarrow>
      transcripts (state (vapiOnMessage m h)) = transcripts (state h)) \<and>
   (m_type m = lit ''transcript'' \<and> transcriptType m = Some (lit ''final'') \<and>
    \<not> blank (vapiMessageText m) \<longrightarrow>
      transcripts (state (vapiOnMessage m h)) =
        transcripts (state h) @
        [\<lparr>t_role = (if m_role m = Some (lit ''user'') then lit ''user'' else lit ''assistant''),
          t_text = vapiMessageText m\<rparr>]) \<and>
   (transcript m = Some t \<and> \<not> blank t \<longrightarrow> vapiMessageText m = t) \<and>
   (m_type m \<noteq> lit ''transcript'' \<or> blank (vapiMessageText m) \<longrightarrow>
      transcripts (state (vapiOnMessage m h)) = transcripts (state h))"
  by (auto simp: vapiOnMessage_def vapiMessageRole_def vapiMessageText_def orElse_def
      trim_blank blank_Nil)

theorem vapi_only_final_transcripts_witness:
  "transcripts (state (vapiOnMessage
     \<lparr>m_type = lit ''transcript'', transcriptType = Some (lit ''partial''),
      m_role = Some (lit ''user''), transcript = Some (lit ''hel''), m_content = None\<rparr>
     (initialHook Vapi))) = [] \<and>
   transcripts (state (vapiOnMessage
     \<lparr>m_type = lit ''transcript'', transcriptType = Some (lit ''final''),
      m_role = Some (lit ''user''), transcript = Some (lit ''hello''), m_content = None\<rparr>
     (initialHook Vapi)))
   = [\<lparr>t_role = lit ''user'', t_text = lit ''hello''\<rparr>] \<and>
   transcripts (state (vapiOnMessage
     \<lparr>m_type = lit ''transcript'', transcriptType = Some (lit ''final''),
      m_role = Some (lit ''user''), transcript = Some [0xA0, 0x20], m_content = None\<rparr>
     (initialHook Vapi))) = []"
  using vapi_only_final_transcripts
    [of "\<lparr>m_type = lit ''transcript'', transcriptType = Some (lit ''partial''),
          m_role = Some (lit ''user''), transcript = Some (lit ''hel''), m_content = None\<rparr>"
        "initialHook Vapi" "lit ''hel''"]
    vapi_only_final_transcripts
    [of "\<lparr>m_type = lit ''transcript'', transcriptType = Some (lit ''final''),
          m_role = Some (lit ''user''), transcript = Some (lit ''hello''), m_content = None\<rparr>"
        "initialHook Vapi" "lit ''hello''"]
    vapi_only_final_transcripts
    [of "\<lparr>m_type = lit ''transcript'', transcriptType = Some (lit ''final''),
          m_role = Some (lit ''user''), transcript = Some [0xA0, 0x20], m_content = None\<rparr>"
        "initialHook Vapi" "[]"]
  by (simp add: blank_def isWhiteSpace_def initialHook_def initialState_def lit_def
      vapiMessageText_def orElse_def)

text \<open>
  C4. With a live session object, the Ultravox transcript listener maps the whole
  transcript array of that object, entry by entry and in order, and stores the result as
  the transcripts of the state; what the state held before plays no part. This is so on
  every transcript event, whatever array the event brings.
\<close>

theorem ultravox_transcripts_replaced:
  "(sessionRef h = Some session \<longrightarrow>
      transcripts (state (updateTranscripts h)) =
        map (\<lambda>t. \<lparr>t_role = (if toLowerCase (speaker t) = lit ''user'' then lit ''user'' else lit ''assistant''),
                  t_text = raw_text t\<rparr>)
          (session_transcripts session)) \<and>
   (sessionRef h \<noteq> None \<longrightarrow>
      transcripts (state (handleEvent str (UltravoxTranscripts ts) h)) =
        map (\<lambda>t. \<lparr>t_role = (if toLowerCase (speaker t) = lit ''user'' then lit ''user'' else lit ''assistant''),
                  t_text = raw_text t\<rparr>) ts)"
  by (auto simp: updateTranscripts_def ultravoxRoleOf_def)

theorem ultravox_transcripts_replaced_witness:
  "transcripts (state (handleEvent (\<lambda>s. [])
     (UltravoxTranscripts
        [\<lparr>raw_text = lit ''hi'', speaker = lit ''user''\<rparr>, \<lparr>raw_text = lit ''hello'', speaker = lit ''agent''\<rparr>,
         \<lparr>raw_text = lit ''hi'', speaker = lit ''user''\<rparr>])
     ((initialHook Ultravox)
        \<lparr>state := (initialState Ultravox)\<lparr>transcripts := [\<lparr>t_role = lit ''user'', t_text = lit ''hi''\<rparr>]\<rparr>,
         sessionRef := Some \<lparr>session_status = IDLE,
                             session_transcripts = [\<lparr>raw_text = lit ''hi'', speaker = lit ''user''\<rparr>]\<rparr>\<rparr>)))
   = [\<lparr>t_role = lit ''user'', t_text = lit ''hi''\<rparr>, \<lparr>t_role = lit ''assistant'', t_text = lit ''hello''\<rparr>,
      \<lparr>t_role = lit ''user'', t_text = lit ''hi''\<rparr>]"
  using ultravox_transcripts_replaced
    [of "(initialHook Ultravox)
           \<lparr>state := (initialState Ultravox)\<lparr>transcripts := [\<lparr>t_role = lit ''user'', t_text = lit ''hi''\<rparr>]\<rparr>,
            sessionRef := Some \<lparr>session_status = IDLE,
                                session_transcripts = [\<lparr>raw_text = lit ''hi'', speaker = lit ''user''\<rparr>]\<rparr>\<rparr>"
        "\<lparr>session_status = IDLE, session_transcripts = [\<lparr>raw_text = lit ''hi'', speaker = lit ''user''\<rparr>]\<rparr>"
        "\<lambda>s. []"
        "[\<lparr>raw_text = lit ''hi'', speaker = lit ''user''\<rparr>, \<lparr>raw_text = lit ''hello'', speaker = lit ''agent''\<rparr>,
          \<lparr>raw_text = lit ''hi'', speaker = lit ''user''\<rparr>]"]
  by (simp add: toLowerCase_def lowerPoint_def lowerTable_def lit_def)

subsection \<open>Ending and starting a call\<close>

lemma providerEndCall_returns: "\<exists>h1. providerEndCall p captured env h = Inr h1"
  by (cases p) (simp_all add: providerEndCall_def vogentEndCall_def vapiEndCall_def
      ultravoxEndCall_def Let_def)

text \<open>
  C2. Whatever the state, the state captured by the callback, the active provider and
  the outcome of the teardown calls, \<open>endCall\<close> returns normally, and the state it
  leaves has \<open>isConnected\<close> and \<open>isConnecting\<close> false, the status
  \<open>disconnected\<close>, no transcripts and no error: each provider's \<open>endCall\<close> catches
  what its teardown throws, so the reset is always reached.
\<close>

theorem endCall_always_resets:
  "(\<exists>h'. endCallVia captured env h = Inr h' \<and>
         isConnected (state h') = False \<and> isConnecting (state h') = False \<and>
         status (state h') = lit ''disconnected'' \<and> transcripts (state h') = [] \<and>
         error (state h') = None) \<and>
   (\<exists>h'. endCall env h = Inr h' \<and>
         isConnected (state h') = False \<and> isConnecting (state h') = False \<and>
         status (state h') = lit ''disconnected'' \<and> transcripts (state h') = [] \<and>
         error (state h') = None)"
proof -
  have "\<exists>h'. endCallVia c env h = Inr h' \<and>
         isConnected (state h') = False \<and> isConnecting (state h') = False \<and>
         status (state h') = lit ''disconnected'' \<and> transcripts (state h') = [] \<and>
         error (state h') = None" for c
  proof -
    obtain h1 where "providerEndCall (opt_provider h) c env h = Inr h1"
      using providerEndCall_returns by blast
    then show ?thesis by (simp add: endCallVia_def)
  qed
  then show ?thesis unfolding endCall_def by blast
qed

theorem endCall_always_resets_witness:
  "\<exists>h'. endCall teardownThrows
          ((initialHook Vogent)
             \<lparr>state := (initialState Vogent)
                \<lparr>isConnected := True, status := lit ''connected'',
                 transcripts := [\<lparr>t_role = lit ''user'', t_text = lit ''hi''\<rparr>],
                 callId := Some (lit ''d1''), error := Some (lit ''old'')\<rparr>,
              callRef := Some 0, transcriptUnsubscribeRef := True, created := 1\<rparr>) = Inr h' \<and>
        state h' = initialState Vogent \<and> callRef h' = None \<and>
        console h' = [lit ''Error ending Vogent call:'']"
  using endCall_always_resets
    [of "initialState Vogent" teardownThrows
        "(initialHook Vogent)
             \<lparr>state := (initialState Vogent)
                \<lparr>isConnected := True, status := lit ''connected'',
                 transcripts := [\<lparr>t_role = lit ''user'', t_text = lit ''hi''\<rparr>],
                 callId := Some (lit ''d1''), error := Some (lit ''old'')\<rparr>,
              callRef := Some 0, transcriptUnsubscribeRef := True, created := 1\<rparr>"]
  by (auto simp: endCall_def endCallVia_def providerEndCall_def vogentEndCall_def
      teardownThrows_def initialHook_def initialState_def Let_def)








text \<open>
  The guard does not stop a second invocation made through the same callback as the
  first, whose captured state shows neither flag: each of the two invocations then
  constructs a connection object.
\<close>

lemma same_callback_constructs_two:
  "created (startCallVia (initialState Vogent) allSucceed
     (startCallVia (initialState Vogent) allSucceed (initialHook Vogent))) = 2"
  by (simp add: startCallVia_def providerStartCall_def resumeStart_def providerTry_def
      vogentTry_def catchStart_def beginStart_def guard_def allSucceed_def initialHook_def
      initialState_def Let_def)

subsection \<open>Status\<close>

lemma lower_fixed: "s \<in> set vogentStatuses \<Longrightarrow> toLowerCase s = s"
  by (auto simp: vogentStatuses_def toLowerCase_def lowerPoint_def lowerTable_def lit_def)

text \<open>
  C1. No status listener throws, and each stores the status its provider reports. For
  Vogent that is the raw status in lower case: for the four values of \<open>VogentStatus\<close>,
  in any letter case, the stored status is one of \<open>connecting\<close>, \<open>connected\<close>,
  \<open>ended\<close>, \<open>error\<close>, and it belongs to the canonical enumeration unless it is
  \<open>ended\<close>. For Vapi the four status events store \<open>connected\<close>,
  \<open>disconnected\<close>, \<open>listening\<close> or \<open>thinking\<close>, all canonical. For Ultravox
  the stored status is \<open>String(status)\<close> of the session status of the SDK.
\<close>

theorem status_listeners_store_provider_status:
  "(toLowerCase raw \<in> set vogentStatuses \<longrightarrow>
      status (state (vogentOnStatus raw h)) = toLowerCase raw \<and>
      (status (state (vogentOnStatus raw h)) \<in> set canonicalStatuses
         \<longleftrightarrow> toLowerCase raw \<noteq> lit ''ended'')) \<and>
   (raw \<in> set vogentStatuses \<longrightarrow> status (state (vogentOnStatus raw h)) = raw) \<and>
   (e \<in> set [VapiCallStart, VapiCallEnd, VapiSpeechStart, VapiSpeechEnd] \<longrightarrow>
      status (state (handleEvent str e h)) \<in> set canonicalStatuses) \<and>
   status (state (handleEvent str (UltravoxStatus s) h)) = str s"
  using lower_fixed [of raw]
  by (auto simp: vogentOnStatus_def Let_def vogentStatuses_def canonicalStatuses_def
      vapiOnCallStart_def vapiOnCallEnd_def vapiOnSpeechStart_def vapiOnSpeechEnd_def
      updateStatus_def ultravoxOnStatus_def lit_def)

theorem status_listeners_store_provider_status_witness:
  "status (state (vogentOnStatus (lit ''Error'') (initialHook Vogent))) = lit ''error'' \<and>
   status (state (vogentOnStatus (lit ''Error'') (initialHook Vogent))) \<in> set canonicalStatuses \<and>
   status (state (handleEvent lowerCaseNames VapiSpeechEnd (initialHook Vapi)))
     \<in> set canonicalStatuses \<and>
   status (state (handleEvent lowerCaseNames (UltravoxStatus IDLE) (initialHook Ultravox))) = lit ''idle''"
  using status_listeners_store_provider_status
    [of "lit ''Error''" "initialHook Vogent" VapiSpeechEnd lowerCaseNames IDLE]
    status_listeners_store_provider_status
    [of "lit ''Error''" "initialHook Vapi" VapiSpeechEnd lowerCaseNames IDLE]
    status_listeners_store_provider_status
    [of "lit ''Error''" "initialHook Ultravox" VapiSpeechEnd lowerCaseNames IDLE]
  by (simp add: vogentStatuses_def canonicalStatuses_def toLowerCase_def lowerPoint_def
      lowerTable_def lit_def)

text \<open>
  C1 as the specification words it does not hold for Vogent: \<open>ended\<close> is a value
  of \<open>VogentStatus\<close>, the listener stores it unchanged, and it is not in the
  canonical enumeration.
\<close>

theorem vogent_ended_not_canonical:
  "lit ''ended'' \<in> set vogentStatuses \<and>
   status (state (vogentOnStatus (lit ''ended'') (initialHook Vogent))) = lit ''ended'' \<and>
   lit ''ended'' \<notin> set canonicalStatuses"
  by (simp add: vogentStatuses_def canonicalStatuses_def vogentOnStatus_def Let_def
      toLowerCase_def lowerPoint_def lowerTable_def lit_def)

lemma status_after_event:
  "status (state (handleEvent str e h)) =
     (case reported str e of Some s \<Rightarrow> s | None \<Rightarrow> status (state h))"
  by (cases e) (auto simp: vogentOnStatus_def Let_def handleTranscriptUpdate_def
      vapiOnCallStart_def vapiOnCallEnd_def vapiOnSpeechStart_def vapiOnSpeechEnd_def
      updateStatus_def vapiOnMessage_def vapiOnError_def ultravoxOnStatus_def
      updateTranscripts_def split: option.splits)

lemma connectedFirst_trace:
  "connectedFirst (statusTrace str h es) =
     connectedFirst (status (state h) # List.map_filter (reported str) es)"
proof (induction es arbitrary: h)
  case Nil
  then show ?case by simp
next
  case (Cons e es)
  show ?case
  proof (cases "reported str e")
    case None
    then show ?thesis
      using Cons [of "handleEvent str e h"] status_after_event [of str e h]
      by simp
  next
    case (Some s)
    then show ?thesis
      using Cons [of "handleEvent str e h"] status_after_event [of str e h]
      by simp
  qed
qed

lemma statusTrace_Cons: "statusTrace str h es = status (state h) # tl (statusTrace str h es)"
  by (cases es) simp_all

lemma vogent_start_connected:
  "opt_provider h = Vogent \<Longrightarrow> \<not> guard (state h) \<Longrightarrow> \<not> startThrows env h \<Longrightarrow>
   status (state (startCall env h)) = lit ''connected''"
  by (auto simp: startCall_def startCallVia_def providerStartCall_def resumeStart_def
      startThrows_def
      providerTry_def vogentTry_def catchStart_def Let_def split: sum.splits if_splits)

lemma other_start_keeps_status:
  "opt_provider h \<noteq> Vogent \<Longrightarrow> status (state (startCall env h)) = status (state h)"
  by (cases "opt_provider h")
     (auto simp: startCall_def startCallVia_def providerStartCall_def resumeStart_def
        providerTry_def
        vapiTry_def ultravoxTry_def catchStart_def beginStart_def Let_def
        split: sum.splits if_splits)

text \<open>
  C9. The hooks store the statuses in the order the provider reports them: in every
  event sequence, \<open>connected\<close> is reached before \<open>listening\<close>, \<open>thinking\<close> or
  \<open>speaking\<close> exactly when that is so for the status held before the events followed
  by the statuses the events report. After a successful Vogent \<open>startCall\<close> the status
  held is \<open>connected\<close>, so the order holds whatever follows. The Vapi and Ultravox
  \<open>startCall\<close> leave the status as it was: there \<open>connected\<close> comes first only if
  the provider reports it first (for Vapi, \<open>call-start\<close> before the first speech
  event).
\<close>

theorem connected_first_follows_provider_order:
  "connectedFirst (statusTrace str h es) =
     connectedFirst (status (state h) # List.map_filter (reported str) es) \<and>
   (opt_provider h = Vogent \<and> \<not> isConnecting (state h) \<and> \<not> isConnected (state h) \<and>
    \<not> startThrows env h \<longrightarrow>
      status (state (startCall env h)) = lit ''connected'' \<and>
      connectedFirst (statusTrace str (startCall env h) es)) \<and>
   (opt_provider h \<noteq> Vogent \<longrightarrow> status (state (startCall env h)) = status (state h))"
proof -
  have a: "connectedFirst (statusTrace str h es) =
     connectedFirst (status (state h) # List.map_filter (reported str) es)"
    by (rule connectedFirst_trace)
  have b: "status (state (startCall env h)) = lit ''connected'' \<and>
      connectedFirst (statusTrace str (startCall env h) es)"
    if "opt_provider h = Vogent" "\<not> guard (state h)" "\<not> startThrows env h"
  proof -
    have "status (state (startCall env h)) = lit ''connected''"
      using that by (rule vogent_start_connected)
    then show ?thesis
      using statusTrace_Cons [of str "startCall env h" es] by (metis connectedFirst.simps(2))
  qed
  have c: "opt_provider h \<noteq> Vogent \<longrightarrow> status (state (startCall env h)) = status (state h)"
    using other_start_keeps_status by blast
  from a b c show ?thesis unfolding guard_def by blast
qed

theorem connected_first_follows_provider_order_witness:
  "connectedFirst (statusTrace lowerCaseNames (initialHook Vapi)
     [VapiCallStart, VapiSpeechStart, VapiSpeechEnd]) \<and>
   status (state (startCall allSucceed (initialHook Vogent))) = lit ''connected'' \<and>
   connectedFirst (statusTrace lowerCaseNames (startCall allSucceed (initialHook Vogent))
     [VogentStatus (lit ''connected''), VogentStatus (lit ''ended'')]) \<and>
   status (state (startCall allSucceed (initialHook Ultravox))) = lit ''disconnected''"
proof -
  have pre: "opt_provider (initialHook Vogent) = Vogent \<and>
      \<not> isConnecting (state (initialHook Vogent)) \<and> \<not> isConnected (state (initialHook Vogent)) \<and>
      \<not> startThrows allSucceed (initialHook Vogent)"
    by (simp add: initialHook_def initialState_def startThrows_def providerTry_def
        vogentTry_def beginStart_def allSucceed_def Let_def)
  have other: "opt_provider (initialHook Ultravox) \<noteq> Vogent"
    by (simp add: initialHook_def)
  have reportedFirst:
    "connectedFirst (status (state (initialHook Vapi)) #
       List.map_filter (reported lowerCaseNames) [VapiCallStart, VapiSpeechStart, VapiSpeechEnd])"
    by (simp add: initialHook_def initialState_def activityStatuses_def lit_def)
  have first: "connectedFirst (statusTrace lowerCaseNames (initialHook Vapi)
     [VapiCallStart, VapiSpeechStart, VapiSpeechEnd])"
    using reportedFirst
      connected_first_follows_provider_order
        [of lowerCaseNames "initialHook Vapi" "[VapiCallStart, VapiSpeechStart, VapiSpeechEnd]"
            allSucceed]
    by blast
  have second: "status (state (startCall allSucceed (initialHook Vogent))) = lit ''connected'' \<and>
     connectedFirst (statusTrace lowerCaseNames (startCall allSucceed (initialHook Vogent))
       [VogentStatus (lit ''connected''), VogentStatus (lit ''ended'')])"
    using pre
      connected_first_follows_provider_order
        [of lowerCaseNames "initialHook Vogent" "[VogentStatus (lit ''connected''), VogentStatus (lit ''ended'')]"
            allSucceed]
    by blast
  have "status (state (startCall allSucceed (initialHook Ultravox))) =
      status (state (initialHook Ultravox))"
    using other
      connected_first_follows_provider_order [of lowerCaseNames "initialHook Ultravox" "[]" allSucceed]
    by blast
  then have third: "status (state (startCall allSucceed (initialHook Ultravox))) = lit ''disconnected''"
    by (simp add: initialHook_def initialState_def)
  from first second third show ?thesis by blast
qed

text \<open>
  C9 as the specification words it does not hold for Vapi: after a successful
  \<open>startCall\<close> the status is still \<open>disconnected\<close>, and a \<open>speech-start\<close>
  event that arrives before \<open>call-start\<close> makes it \<open>listening\<close>.
\<close>

theorem vapi_listening_before_connected:
  "\<not> startThrows allSucceed (initialHook Vapi) \<and>
   statusTrace lowerCaseNames (startCall allSucceed (initialHook Vapi)) [VapiSpeechStart]
     = [lit ''disconnected'', lit ''listening''] \<and>
   \<not> connectedFirst [lit ''disconnected'', lit ''listening'']"
  by (simp add: startThrows_def startCall_def startCallVia_def providerStartCall_def
      resumeStart_def providerTry_def vapiTry_def catchStart_def beginStart_def guard_def
      allSucceed_def initialHook_def initialState_def truthy_def Let_def
      vapiOnSpeechStart_def updateStatus_def activityStatuses_def lit_def)

text \<open>
  With the lower-case member names as status strings, the sequence of session statuses
  that the repository's provider guide gives for Ultravox (connecting, idle, listening)
  shows \<open>idle\<close> where the other hooks show \<open>connected\<close>.
\<close>

lemma ultravox_idle_stands_for_connected:
  "statusTrace lowerCaseNames (startCall allSucceed (initialHook Ultravox))
     [UltravoxStatus CONNECTING, UltravoxStatus IDLE, UltravoxStatus LISTENING]
   = [lit ''disconnected'', lit ''connecting'', lit ''idle'', lit ''listening'']"
  by (simp add: startCall_def startCallVia_def providerStartCall_def resumeStart_def
      providerTry_def ultravoxTry_def catchStart_def beginStart_def guard_def
      allSucceed_def initialHook_def initialState_def Let_def ultravoxOnStatus_def lit_def)

end
